theory Spec2Isabelle
  imports Main
begin

section \<open>Pull statistics worker: data model\<close>

text \<open>
  The development embeds \<^verbatim>\<open>workers/pullstatssyncworker.py\<close> (class
  \<^verbatim>\<open>PullStatsSyncWorker\<close>) and the three peewee models it writes. A
  \<^verbatim>\<open>DateTimeField\<close> is an \<open>int\<close> (seconds), a \<^verbatim>\<open>BigIntegerField\<close>
  counter a \<open>nat\<close>, a table the list of its rows in insertion order. A method
  that mutates the database takes the world and returns it; a method that can raise
  returns the exception beside the world as it stood when the exception was raised,
  since a Python handler that catches it goes on from that state.
\<close>

type_synonym datetime = int

datatype level = DEBUG | INFO | WARNING | ERROR

datatype error = WriteFailure | KeyError

record tag_pull_statistics =
  tag_repository :: nat
  tag_name :: string
  tag_pull_count :: nat
  last_tag_pull_date :: datetime
  current_manifest_digest :: string
  tag_created :: datetime
  tag_updated :: datetime

record manifest_pull_statistics =
  manifest_repository :: nat
  manifest_digest :: string
  total_pull_count :: nat
  last_pull_date :: datetime
  last_tag_pulled :: "string option"
  manifest_created :: datetime
  manifest_updated :: datetime

record pull_statistics_processing_state =
  worker_id :: string
  last_processed_datetime :: datetime
  last_processed_log_id :: "nat option"
  logs_processed_count :: nat

text \<open>The rows of \<^verbatim>\<open>Tag\<close> joined with \<^verbatim>\<open>Manifest\<close>, as the resolver reads them.\<close>

record tag_binding =
  binding_repository :: nat
  binding_name :: string
  lifetime_end_ms :: "int option"
  binding_digest :: string

text \<open>
  A pull event as both read paths hand it to the loop: a dictionary with the keys
  \<^verbatim>\<open>id\<close>, \<^verbatim>\<open>datetime\<close>, \<^verbatim>\<open>repository_id\<close>, \<^verbatim>\<open>kind\<close> and
  \<^verbatim>\<open>metadata\<close>; a key read with \<^verbatim>\<open>.get\<close> is an option.
\<close>

record metadata =
  md_tag :: "string option"
  md_manifest_digest :: "string option"

record log_entry =
  entry_id :: "nat option"
  entry_datetime :: datetime
  repository_id :: "nat option"
  kind :: string
  entry_metadata :: metadata

text \<open>
  A row of the \<^verbatim>\<open>LogEntry\<close> table, read by the fallback path. The column
  \<^verbatim>\<open>metadata_json\<close> is kept with what \<^verbatim>\<open>json.loads\<close> makes of it: empty
  or null, text that does not parse, or an object.
\<close>

datatype json_text = JsonEmpty | JsonInvalid | JsonObject metadata

record db_log_entry =
  log_id :: nat
  log_kind :: string
  log_datetime :: datetime
  log_repository :: "nat option"
  metadata_json :: json_text

text \<open>
  What the worker writes: the three tables and the logger's output.
\<close>

record world =
  tag_stats :: "tag_pull_statistics list"
  manifest_stats :: "manifest_pull_statistics list"
  processing_state :: "pull_statistics_processing_state list"
  logger :: "(level \<times> string) list"

text \<open>
  What the worker reads and does not own: the clock (one reading for a pass, also
  the \<^verbatim>\<open>created\<close> default of the rows it inserts), the configuration, the global
  lock, \<^verbatim>\<open>logs_model.lookup_logs\<close> (\<open>None\<close> when it raises), the log and tag
  tables, and the statements of the database that fail (a write on a statistics
  row, the tag query, the commit of a batch's transaction).
\<close>

record env =
  utcnow :: datetime
  BATCH_SIZE :: nat
  LOOKBACK_HOURS :: nat
  lock_held :: bool
  lookup_logs :: "datetime \<Rightarrow> datetime \<Rightarrow> nat \<Rightarrow> log_entry list option"
  log_entry_kinds :: "string list"
  log_entries :: "db_log_entry list"
  tags :: "tag_binding list"
  tag_query_fails :: "nat \<Rightarrow> string \<Rightarrow> bool"
  tag_write_fails :: "nat \<Rightarrow> string \<Rightarrow> bool"
  manifest_write_fails :: "nat \<Rightarrow> string \<Rightarrow> bool"
  commit_fails :: "log_entry list \<Rightarrow> bool"

definition WORKER_ID :: string where
  "WORKER_ID = ''pullstats_worker''"

section \<open>Python truth values and the logger\<close>

definition truthy_str :: "string option \<Rightarrow> bool" where
  "truthy_str s = (case s of None \<Rightarrow> False | Some t \<Rightarrow> t \<noteq> [])"

definition truthy_id :: "nat option \<Rightarrow> bool" where
  "truthy_id n = (case n of None \<Rightarrow> False | Some k \<Rightarrow> k \<noteq> 0)"

definition log_msg :: "level \<Rightarrow> string \<Rightarrow> world \<Rightarrow> world" where
  "log_msg lvl msg w = w\<lparr>logger := logger w @ [(lvl, msg)]\<rparr>"

section \<open>The statistics upserts\<close>

definition manifest_key :: "nat \<Rightarrow> string \<Rightarrow> manifest_pull_statistics \<Rightarrow> bool" where
  "manifest_key repo digest r = (manifest_repository r = repo \<and> manifest_digest r = digest)"

definition tag_key :: "nat \<Rightarrow> string \<Rightarrow> tag_pull_statistics \<Rightarrow> bool" where
  "tag_key repo name r = (tag_repository r = repo \<and> tag_name r = name)"

text \<open>
  \<^verbatim>\<open>_update_manifest_pull_stats\<close>: \<^verbatim>\<open>get_or_create\<close> on (repository,
  manifest digest), then for a row that was found the \<^verbatim>\<open>UPDATE ... WHERE\<close>. The
  comparison with \<^verbatim>\<open>manifest_stats.last_pull_date\<close> reads the row that
  \<^verbatim>\<open>get_or_create\<close> returned.
\<close>

definition update_manifest_pull_stats ::
  "env \<Rightarrow> world \<Rightarrow> nat \<Rightarrow> string \<Rightarrow> datetime \<Rightarrow> string option \<Rightarrow> error option \<times> world" where
  "update_manifest_pull_stats e w repo digest pull_datetime via_tag =
    (if manifest_write_fails e repo digest then (Some WriteFailure, w)
     else case find (manifest_key repo digest) (manifest_stats w) of
       None \<Rightarrow>
         (None, w\<lparr>manifest_stats := manifest_stats w @
            [\<lparr>manifest_repository = repo, manifest_digest = digest,
              total_pull_count = 1, last_pull_date = pull_datetime,
              last_tag_pulled = via_tag, manifest_created = utcnow e,
              manifest_updated = pull_datetime\<rparr>]\<rparr>)
     | Some found \<Rightarrow>
         (None, w\<lparr>manifest_stats := map (\<lambda>r.
            if manifest_key repo digest r then
              r\<lparr>total_pull_count := total_pull_count r + 1,
                manifest_updated := pull_datetime,
                last_pull_date :=
                  (if pull_datetime > last_pull_date found then pull_datetime
                   else last_pull_date r),
                last_tag_pulled :=
                  (if pull_datetime > last_pull_date found \<and> truthy_str via_tag then via_tag
                   else last_tag_pulled r)\<rparr>
            else r) (manifest_stats w)\<rparr>))"

text \<open>
  \<^verbatim>\<open>_get_manifest_digest_for_tag\<close>: the first active binding of the tag (its
  \<^verbatim>\<open>lifetime_end_ms\<close> is null), \<open>None\<close> when there is none, and \<open>None\<close> with a
  warning when the query raises. It reads only; it returns the digest and the lines
  it logged.
\<close>

definition active_binding :: "env \<Rightarrow> nat \<Rightarrow> string \<Rightarrow> tag_binding option" where
  "active_binding e repo name =
    find (\<lambda>t. binding_repository t = repo \<and> binding_name t = name
               \<and> lifetime_end_ms t = None) (tags e)"

definition get_manifest_digest_for_tag ::
  "env \<Rightarrow> nat \<Rightarrow> string \<Rightarrow> string option \<times> (level \<times> string) list" where
  "get_manifest_digest_for_tag e repo name =
    (if tag_query_fails e repo name then
       (None, [(WARNING, ''Error getting manifest digest for tag %s: %s'')])
     else case active_binding e repo name of
       None \<Rightarrow> (None, [])
     | Some t \<Rightarrow> (Some (binding_digest t), []))"

text \<open>
  \<^verbatim>\<open>_update_tag_pull_stats\<close>: resolve the digest when the event carries none,
  return when there is still none, upsert the tag row, then the manifest row.
\<close>

definition update_tag_pull_stats ::
  "env \<Rightarrow> world \<Rightarrow> nat \<Rightarrow> string \<Rightarrow> datetime \<Rightarrow> string option \<Rightarrow> error option \<times> world" where
  "update_tag_pull_stats e w repo name pull_datetime manifest_digest0 =
    (let (digest_opt, lines) =
           (if \<not> truthy_str manifest_digest0 then get_manifest_digest_for_tag e repo name
            else (manifest_digest0, []));
         w1 = w\<lparr>logger := logger w @ lines\<rparr>
     in if \<not> truthy_str digest_opt then
          (None, log_msg WARNING ''Could not find manifest digest for tag %s in repo %d'' w1)
        else if tag_write_fails e repo name then (Some WriteFailure, w1)
        else
          let digest = the digest_opt;
              w2 = (case find (tag_key repo name) (tag_stats w1) of
                 None \<Rightarrow>
                   w1\<lparr>tag_stats := tag_stats w1 @
                     [\<lparr>tag_repository = repo, tag_name = name, tag_pull_count = 1,
                       last_tag_pull_date = pull_datetime,
                       current_manifest_digest = digest,
                       tag_created = utcnow e, tag_updated = pull_datetime\<rparr>]\<rparr>
               | Some found \<Rightarrow>
                   w1\<lparr>tag_stats := map (\<lambda>r.
                     if tag_key repo name r then
                       r\<lparr>tag_pull_count := tag_pull_count r + 1,
                         last_tag_pull_date := pull_datetime,
                         current_manifest_digest := digest,
                         tag_updated := pull_datetime\<rparr>
                     else r) (tag_stats w1)\<rparr>)
          in update_manifest_pull_stats e w2 repo digest pull_datetime (Some name))"

text \<open>
  \<^verbatim>\<open>_process_single_log\<close>: an event with no repository id (or id 0) is dropped;
  one with a tag is a tag pull; one with only a digest is a digest pull; one with
  neither is dropped.
\<close>

definition process_single_log :: "env \<Rightarrow> world \<Rightarrow> log_entry \<Rightarrow> error option \<times> world" where
  "process_single_log e w log =
    (if \<not> truthy_id (repository_id log) then (None, w)
     else
       let repo = the (repository_id log);
           tag = md_tag (entry_metadata log);
           digest = md_manifest_digest (entry_metadata log)
       in if truthy_str tag then
            update_tag_pull_stats e w repo (the tag) (entry_datetime log) digest
          else if truthy_str digest then
            update_manifest_pull_stats e w repo (the digest) (entry_datetime log) None
          else (None, w))"

section \<open>Batches\<close>

text \<open>
  \<^verbatim>\<open>_process_log_batch\<close>: the loop runs inside \<^verbatim>\<open>db_transaction()\<close>; an
  exception of one entry is caught inside the loop, logged, and the loop goes on. The
  transaction commits when the block is left; a commit that fails rolls the tables
  back to where the batch began (the logger's lines stay) and raises.
\<close>

fun process_entries :: "env \<Rightarrow> world \<Rightarrow> log_entry list \<Rightarrow> world" where
  "process_entries e w [] = w"
| "process_entries e w (log # logs) =
    (case process_single_log e w log of
       (None, w') \<Rightarrow> process_entries e w' logs
     | (Some err, w') \<Rightarrow>
         process_entries e (log_msg WARNING ''Error processing log entry: %s'' w') logs)"

definition process_log_batch :: "env \<Rightarrow> world \<Rightarrow> log_entry list \<Rightarrow> error option \<times> world" where
  "process_log_batch e w log_batch =
    (let w' = process_entries e w log_batch
     in if commit_fails e log_batch then
          (Some WriteFailure,
           w'\<lparr>tag_stats := tag_stats w, manifest_stats := manifest_stats w,
              processing_state := processing_state w\<rparr>)
        else (None, w'))"

section \<open>The checkpoint\<close>

definition checkpoint :: "world \<Rightarrow> pull_statistics_processing_state option" where
  "checkpoint w = find (\<lambda>s. worker_id s = WORKER_ID) (processing_state w)"

text \<open>
  \<^verbatim>\<open>_get_processing_state\<close>: the worker's row, created on the first run with
  the watermark \<^verbatim>\<open>LOOKBACK_HOURS\<close> before now.
\<close>

definition get_processing_state ::
  "env \<Rightarrow> world \<Rightarrow> pull_statistics_processing_state \<times> world" where
  "get_processing_state e w =
    (case checkpoint w of
       Some s \<Rightarrow> (s, w)
     | None \<Rightarrow>
         let s = \<lparr>worker_id = WORKER_ID,
                  last_processed_datetime = utcnow e - int (LOOKBACK_HOURS e) * 3600,
                  last_processed_log_id = None, logs_processed_count = 0\<rparr>
         in (s, w\<lparr>processing_state := processing_state w @ [s]\<rparr>))"

text \<open>\<^verbatim>\<open>_update_processing_state\<close>: one \<^verbatim>\<open>UPDATE ... WHERE worker_id = WORKER_ID\<close>.\<close>

definition update_processing_state :: "world \<Rightarrow> datetime \<Rightarrow> nat option \<Rightarrow> nat \<Rightarrow> world" where
  "update_processing_state w latest_dt latest_id processed =
    w\<lparr>processing_state := map (\<lambda>s.
        if worker_id s = WORKER_ID then
          s\<lparr>last_processed_datetime := latest_dt, last_processed_log_id := latest_id,
            logs_processed_count := logs_processed_count s + processed\<rparr>
        else s) (processing_state w)\<rparr>"

section \<open>Reading the pull events\<close>

text \<open>
  \<^verbatim>\<open>_get_pull_logs_from_database\<close>: the rows of kind \<^verbatim>\<open>pull_repo\<close> with
  \<^verbatim>\<open>start <= datetime <= end\<close>, ordered by datetime, at most ten batches of them,
  each turned into a dictionary; a row whose metadata does not parse is skipped with
  a warning. Any other failure (here: the kind is not in \<^verbatim>\<open>LogEntryKind\<close>) gives
  the empty list and an error line.
\<close>

fun format_logs :: "db_log_entry list \<Rightarrow> log_entry list \<times> (level \<times> string) list" where
  "format_logs [] = ([], [])"
| "format_logs (l # ls) =
    (let (formatted, lines) = format_logs ls
     in case metadata_json l of
          JsonInvalid \<Rightarrow> (formatted, (WARNING, ''Error parsing log entry %d: %s'') # lines)
        | JsonEmpty \<Rightarrow>
            (\<lparr>entry_id = Some (log_id l), entry_datetime = log_datetime l,
              repository_id = log_repository l, kind = ''pull_repo'',
              entry_metadata = \<lparr>md_tag = None, md_manifest_digest = None\<rparr>\<rparr> # formatted,
             lines)
        | JsonObject md \<Rightarrow>
            (\<lparr>entry_id = Some (log_id l), entry_datetime = log_datetime l,
              repository_id = log_repository l, kind = ''pull_repo'',
              entry_metadata = md\<rparr> # formatted,
             lines))"

definition get_pull_logs_from_database ::
  "env \<Rightarrow> datetime \<Rightarrow> datetime \<Rightarrow> log_entry list \<times> (level \<times> string) list" where
  "get_pull_logs_from_database e start_datetime end_datetime =
    (if ''pull_repo'' \<notin> set (log_entry_kinds e) then
       ([], [(ERROR, ''Failed to get pull logs from database: %s'')])
     else format_logs (take (BATCH_SIZE e * 10) (sort_key log_datetime
       (filter (\<lambda>l. log_kind l = ''pull_repo'' \<and> log_datetime l \<ge> start_datetime
                     \<and> log_datetime l \<le> end_datetime) (log_entries e)))))"

text \<open>\<^verbatim>\<open>_get_pull_logs\<close>: the logs model first, the database when that raises.\<close>

definition get_pull_logs ::
  "env \<Rightarrow> datetime \<Rightarrow> datetime \<Rightarrow> log_entry list \<times> (level \<times> string) list" where
  "get_pull_logs e start_datetime end_datetime =
    (case lookup_logs e start_datetime end_datetime (BATCH_SIZE e * 10) of
       Some pull_logs \<Rightarrow> (pull_logs, [])
     | None \<Rightarrow>
         (let (pull_logs, lines) = get_pull_logs_from_database e start_datetime end_datetime
          in (pull_logs, (WARNING, ''Failed to get pull logs from logs model: %s'') # lines)))"

section \<open>The pass\<close>

text \<open>
  \<^verbatim>\<open>hasattr(log_entry, 'id')\<close> on a dictionary asks for an attribute of the
  \<^verbatim>\<open>dict\<close> object, not for a key: it holds for the methods of \<^verbatim>\<open>dict\<close> and
  for its special names (which start with two underscores), whatever the keys are.
\<close>

definition dict_methods :: "string list" where
  "dict_methods = [''clear'', ''copy'', ''fromkeys'', ''get'', ''items'', ''keys'', ''pop'',
     ''popitem'', ''setdefault'', ''update'', ''values'']"

definition hasattr_dict :: "string \<Rightarrow> bool" where
  "hasattr_dict name = (name \<in> set dict_methods \<or> take 2 name = ''__'')"

text \<open>
  The local variables of the loop of \<^verbatim>\<open>_process_pull_logs\<close>, with the world.
\<close>

record loop_vars =
  loop_world :: world
  batch :: "log_entry list"
  processed_count :: nat
  latest_datetime :: datetime
  latest_log_id :: "nat option"

text \<open>
  \<^verbatim>\<open>latest_log_id = max(latest_log_id or 0, log_entry['id'])\<close> under the
  \<^verbatim>\<open>hasattr\<close> test; the subscript raises when the key is missing.
\<close>

definition track_log_id :: "nat option \<Rightarrow> log_entry \<Rightarrow> error + nat option" where
  "track_log_id latest log =
    (if hasattr_dict ''id'' then
       (case entry_id log of
          None \<Rightarrow> Inl KeyError
        | Some i \<Rightarrow> Inr (Some (max (case latest of None \<Rightarrow> 0 | Some l \<Rightarrow> l) i)))
     else Inr latest)"

fun pull_logs_loop :: "env \<Rightarrow> loop_vars \<Rightarrow> log_entry list \<Rightarrow> error option \<times> loop_vars" where
  "pull_logs_loop e v [] = (None, v)"
| "pull_logs_loop e v (log # logs) =
    (let v1 = v\<lparr>batch := batch v @ [log],
                 latest_datetime := max (latest_datetime v) (entry_datetime log)\<rparr>
     in case track_log_id (latest_log_id v1) log of
          Inl err \<Rightarrow> (Some err, v1)
        | Inr latest \<Rightarrow>
            (let v2 = v1\<lparr>latest_log_id := latest\<rparr>
             in if length (batch v2) \<ge> BATCH_SIZE e then
                  (case process_log_batch e (loop_world v2) (batch v2) of
                     (Some err, w') \<Rightarrow> (Some err, v2\<lparr>loop_world := w'\<rparr>)
                   | (None, w') \<Rightarrow>
                       pull_logs_loop e
                         (v2\<lparr>loop_world := w',
                             processed_count := processed_count v2 + length (batch v2),
                             batch := []\<rparr>) logs)
                else pull_logs_loop e v2 logs))"

text \<open>
  \<^verbatim>\<open>_process_pull_logs\<close>: read the checkpoint, read the events from the
  watermark to now, return when there are none, run the loop and the remaining batch,
  then write the checkpoint.
\<close>

definition process_pull_logs :: "env \<Rightarrow> world \<Rightarrow> error option \<times> world" where
  "process_pull_logs e w =
    (let (st, w1) = get_processing_state e w;
         start_datetime = last_processed_datetime st;
         end_datetime = utcnow e;
         w2 = log_msg INFO ''Processing pull logs from %s to %s'' w1;
         (pull_logs, lines) = get_pull_logs e start_datetime end_datetime;
         w3 = w2\<lparr>logger := logger w2 @ lines\<rparr>
     in if pull_logs = [] then (None, log_msg DEBUG ''No pull logs found in time range'' w3)
        else
          case pull_logs_loop e
                 \<lparr>loop_world = w3, batch = [], processed_count = 0,
                  latest_datetime = start_datetime,
                  latest_log_id = last_processed_log_id st\<rparr> pull_logs of
            (Some err, v) \<Rightarrow> (Some err, loop_world v)
          | (None, v) \<Rightarrow>
              (case (if batch v \<noteq> [] then process_log_batch e (loop_world v) (batch v)
                     else (None, loop_world v)) of
                 (Some err, w4) \<Rightarrow> (Some err, w4)
               | (None, w4) \<Rightarrow>
                   (let processed =
                          processed_count v + (if batch v \<noteq> [] then length (batch v) else 0);
                        w5 = update_processing_state w4 (latest_datetime v) (latest_log_id v)
                               processed
                    in (None, log_msg INFO ''Processed %d pull log entries'' w5))))"

text \<open>
  \<^verbatim>\<open>_sync_pull_stats\<close>: the pass under the global lock. When another instance
  holds the lock, \<^verbatim>\<open>LockNotAcquiredException\<close> is logged at debug level and the
  method returns; any other exception of the pass is logged as an error.
\<close>

definition sync_pull_stats :: "env \<Rightarrow> world \<Rightarrow> world" where
  "sync_pull_stats e w =
    (if lock_held e then log_msg DEBUG ''Could not acquire pull stats sync lock'' w
     else case process_pull_logs e w of
            (None, w') \<Rightarrow> w'
          | (Some err, w') \<Rightarrow> log_msg ERROR ''Error processing pull stats: %s'' w')"

section \<open>Observations on the tables and on a pass\<close>

definition tag_row :: "world \<Rightarrow> nat \<Rightarrow> string \<Rightarrow> tag_pull_statistics option" where
  "tag_row w repo name = find (tag_key repo name) (tag_stats w)"

definition manifest_row :: "world \<Rightarrow> nat \<Rightarrow> string \<Rightarrow> manifest_pull_statistics option" where
  "manifest_row w repo digest = find (manifest_key repo digest) (manifest_stats w)"

definition tag_pulls :: "world \<Rightarrow> nat \<Rightarrow> string \<Rightarrow> nat" where
  "tag_pulls w repo name =
    (case tag_row w repo name of None \<Rightarrow> 0 | Some r \<Rightarrow> tag_pull_count r)"

definition manifest_pulls :: "world \<Rightarrow> nat \<Rightarrow> string \<Rightarrow> nat" where
  "manifest_pulls w repo digest =
    (case manifest_row w repo digest of None \<Rightarrow> 0 | Some r \<Rightarrow> total_pull_count r)"

definition checkpoint_log_id :: "world \<Rightarrow> nat option" where
  "checkpoint_log_id w =
    (case checkpoint w of None \<Rightarrow> None | Some st \<Rightarrow> last_processed_log_id st)"




text \<open>
  The batches the loop of \<^verbatim>\<open>_process_pull_logs\<close> forms from the events of a
  pass, the remaining one included: \<open>cur\<close> is the batch being filled.
\<close>

fun split_batches :: "nat \<Rightarrow> 'a list \<Rightarrow> 'a list \<Rightarrow> 'a list list" where
  "split_batches n cur [] = (if cur = [] then [] else [cur])"
| "split_batches n cur (x # xs) =
    (if length (cur @ [x]) \<ge> n then (cur @ [x]) # split_batches n [] xs
     else split_batches n (cur @ [x]) xs)"

text \<open>Batches run one after the other, up to the first whose transaction fails.\<close>

fun run_batches :: "env \<Rightarrow> world \<Rightarrow> log_entry list list \<Rightarrow> error option \<times> world" where
  "run_batches e w [] = (None, w)"
| "run_batches e w (b # bs) =
    (case process_log_batch e w b of
       (Some err, w') \<Rightarrow> (Some err, w')
     | (None, w') \<Rightarrow> run_batches e w' bs)"

text \<open>The events a pass reads, its batches, and the world when its loop starts.\<close>

definition pass_events :: "env \<Rightarrow> world \<Rightarrow> log_entry list" where
  "pass_events e w =
    fst (get_pull_logs e (last_processed_datetime (fst (get_processing_state e w))) (utcnow e))"

definition pass_batches :: "env \<Rightarrow> world \<Rightarrow> log_entry list list" where
  "pass_batches e w = split_batches (BATCH_SIZE e) [] (pass_events e w)"

definition pass_start :: "env \<Rightarrow> world \<Rightarrow> world" where
  "pass_start e w =
    (let w1 = snd (get_processing_state e w)
     in w1\<lparr>logger := logger w1 @ (INFO, ''Processing pull logs from %s to %s'') #
          snd (get_pull_logs e (last_processed_datetime (fst (get_processing_state e w)))
                 (utcnow e))\<rparr>)"

section \<open>Example inputs\<close>

definition example_env :: env where
  "example_env =
    \<lparr>utcnow = 1000, BATCH_SIZE = 1000, LOOKBACK_HOURS = 24, lock_held = False,
     lookup_logs = (\<lambda>_ _ _. None), log_entry_kinds = [''pull_repo''], log_entries = [],
     tags = [], tag_query_fails = (\<lambda>_ _. False), tag_write_fails = (\<lambda>_ _. False),
     manifest_write_fails = (\<lambda>_ _. False), commit_fails = (\<lambda>_. False)\<rparr>"

definition empty_world :: world where
  "empty_world = \<lparr>tag_stats = [], manifest_stats = [], processing_state = [], logger = []\<rparr>"

definition checkpointed_world :: world where
  "checkpointed_world =
    \<lparr>tag_stats = [], manifest_stats = [],
     processing_state =
       [\<lparr>worker_id = WORKER_ID, last_processed_datetime = 0,
         last_processed_log_id = None, logs_processed_count = 0\<rparr>],
     logger = []\<rparr>"

definition tag_pull :: "nat \<Rightarrow> string \<Rightarrow> string option \<Rightarrow> datetime \<Rightarrow> log_entry" where
  "tag_pull repo name digest t =
    \<lparr>entry_id = None, entry_datetime = t, repository_id = Some repo, kind = ''pull_repo'',
     entry_metadata = \<lparr>md_tag = Some name, md_manifest_digest = digest\<rparr>\<rparr>"

definition digest_pull :: "nat \<Rightarrow> string \<Rightarrow> datetime \<Rightarrow> log_entry" where
  "digest_pull repo digest t =
    \<lparr>entry_id = None, entry_datetime = t, repository_id = Some repo, kind = ''pull_repo'',
     entry_metadata = \<lparr>md_tag = None, md_manifest_digest = Some digest\<rparr>\<rparr>"

definition db_tag_pull :: "nat \<Rightarrow> nat \<Rightarrow> string \<Rightarrow> string \<Rightarrow> datetime \<Rightarrow> db_log_entry" where
  "db_tag_pull i repo name digest t =
    \<lparr>log_id = i, log_kind = ''pull_repo'', log_datetime = t, log_repository = Some repo,
     metadata_json = JsonObject \<lparr>md_tag = Some name, md_manifest_digest = Some digest\<rparr>\<rparr>"

text \<open>
  A pass of two batches of one event each (\<^verbatim>\<open>BATCH_SIZE\<close> is 1) in which the
  transaction of the second batch fails to commit.
\<close>

definition second_commit_fails_env :: env where
  "second_commit_fails_env =
    example_env\<lparr>BATCH_SIZE := 1,
      lookup_logs := (\<lambda>_ _ _. Some [tag_pull 1 ''v1.0'' (Some ''sha256:abc'') 5,
                                  tag_pull 1 ''latest'' (Some ''sha256:abc'') 6]),
      commit_fails := (\<lambda>b. b = [tag_pull 1 ''latest'' (Some ''sha256:abc'') 6])\<rparr>"


text \<open>The log table of two passes: one pull before the first, one more before the second.\<close>

definition first_pass_env :: env where
  "first_pass_env =
    example_env\<lparr>log_entries := [db_tag_pull 7 1 ''v1.0'' ''sha256:abc'' 900]\<rparr>"

definition second_pass_env :: env where
  "second_pass_env =
    example_env\<lparr>utcnow := 1300,
      log_entries := [db_tag_pull 7 1 ''v1.0'' ''sha256:abc'' 900,
                      db_tag_pull 8 1 ''v1.0'' ''sha256:abc'' 1200]\<rparr>"

section \<open>Lemmas on tables\<close>

lemma find_map_update:
  assumes "\<And>r. P r \<Longrightarrow> P (f r)"
  shows "find P (map (\<lambda>r. if P r then f r else r) xs) = map_option f (find P xs)"
  using assms by (induction xs) auto

lemma find_append_new:
  "find P xs = None \<Longrightarrow> find P (xs @ [x]) = (if P x then Some x else None)"
  by (induction xs) (auto split: if_splits)

lemma find_other_map:
  assumes "\<And>r. Q r \<Longrightarrow> \<not> P r" and "\<And>r. Q r \<Longrightarrow> \<not> P (f r)"
  shows "find P (map (\<lambda>r. if Q r then f r else r) xs) = find P xs"
  using assms by (induction xs) auto

lemma find_other_append:
  "\<not> P x \<Longrightarrow> find P (xs @ [x]) = find P xs"
  by (induction xs) auto

lemma filter_map_other:
  assumes "\<And>r. Q r \<Longrightarrow> \<not> P r" and "\<And>r. Q r \<Longrightarrow> \<not> P (f r)"
  shows "filter P (map (\<lambda>r. if Q r then f r else r) xs) = filter P xs"
  using assms by (induction xs) auto

lemma manifest_key_update [simp]:
  "manifest_key repo digest (r\<lparr>total_pull_count := a, manifest_updated := b,
      last_pull_date := c, last_tag_pulled := d\<rparr>) = manifest_key repo digest r"
  by (simp add: manifest_key_def)

lemma manifest_key_new [simp]:
  "manifest_key repo digest \<lparr>manifest_repository = repo', manifest_digest = digest',
      total_pull_count = a, last_pull_date = b, last_tag_pulled = c, manifest_created = d,
      manifest_updated = f\<rparr> = (repo' = repo \<and> digest' = digest)"
  by (simp add: manifest_key_def)

text \<open>The definitions a concrete run unfolds.\<close>

lemmas upsert_defs = update_manifest_pull_stats_def update_tag_pull_stats_def
  get_manifest_digest_for_tag_def process_single_log_def truthy_str_def truthy_id_def
  log_msg_def manifest_key_def tag_key_def

lemmas eval_defs = upsert_defs active_binding_def process_log_batch_def checkpoint_def
  get_processing_state_def update_processing_state_def get_pull_logs_from_database_def
  get_pull_logs_def hasattr_dict_def dict_methods_def track_log_id_def process_pull_logs_def
  sync_pull_stats_def tag_row_def manifest_row_def manifest_pulls_def pass_events_def
  pass_batches_def pass_start_def example_env_def empty_world_def tag_pull_def
  digest_pull_def db_tag_pull_def WORKER_ID_def Let_def checkpoint_log_id_def

section \<open>A pull counts once on the manifest row\<close>

text \<open>
  C6, as the code has it. Every manifest-side update whose write succeeds, whether it
  comes from a tag pull (\<open>via = Some tag\<close>) or from a digest pull (\<open>via = None\<close>),
  raises the total pull count of the row of (repository, digest) by exactly one (a
  missing row counts as zero and is created with count one). A digest pull leaves
  \<^verbatim>\<open>last_tag_pulled\<close> of an existing row as it was. A tag pull sets it to the
  triggering tag when the row is created, or when the pull is strictly newer than the
  row's last pull date; a tag pull that is not newer leaves it as it was.
\<close>

theorem manifest_update_counts_one:
  assumes "\<not> manifest_write_fails e repo digest"
  shows "manifest_pulls (snd (update_manifest_pull_stats e w repo digest t via)) repo digest
           = manifest_pulls w repo digest + 1
    \<and> map_option last_tag_pulled
        (manifest_row (snd (update_manifest_pull_stats e w repo digest t via)) repo digest)
       = Some (case manifest_row w repo digest of
                 None \<Rightarrow> via
               | Some r \<Rightarrow> if t > last_pull_date r \<and> truthy_str via then via
                           else last_tag_pulled r)"
proof (cases "find (manifest_key repo digest) (manifest_stats w)")
  case None
  then show ?thesis using assms
    by (simp add: update_manifest_pull_stats_def manifest_pulls_def manifest_row_def
        find_append_new)
next
  case (Some found)
  then show ?thesis using assms
    by (simp add: update_manifest_pull_stats_def manifest_pulls_def manifest_row_def
        find_map_update)
qed

theorem manifest_update_counts_one_witness:
  "\<not> manifest_write_fails example_env 1 ''sha256:abc''
   \<and> manifest_pulls (snd (update_manifest_pull_stats example_env
        (process_entries example_env empty_world
           [tag_pull 1 ''latest'' (Some ''sha256:abc'') 10])
        1 ''sha256:abc'' 20 None)) 1 ''sha256:abc'' = 2
   \<and> map_option last_tag_pulled (manifest_row (snd (update_manifest_pull_stats example_env
        (process_entries example_env empty_world
           [tag_pull 1 ''latest'' (Some ''sha256:abc'') 10])
        1 ''sha256:abc'' 20 None)) 1 ''sha256:abc'') = Some (Some ''latest'')"
proof -
  have h: "\<not> manifest_write_fails example_env 1 ''sha256:abc''"
    by (simp add: example_env_def)
  have w: "manifest_row (process_entries example_env empty_world
           [tag_pull 1 ''latest'' (Some ''sha256:abc'') 10]) 1 ''sha256:abc''
      = Some \<lparr>manifest_repository = 1, manifest_digest = ''sha256:abc'',
           total_pull_count = 1, last_pull_date = 10, last_tag_pulled = Some ''latest'',
           manifest_created = 1000, manifest_updated = 10\<rparr>"
    by (simp add: eval_defs)
  from manifest_update_counts_one [OF h, of
      "process_entries example_env empty_world [tag_pull 1 ''latest'' (Some ''sha256:abc'') 10]"
      20 None] h w
  show ?thesis by (simp add: manifest_pulls_def truthy_str_def)
qed

text \<open>
  The claim as written (a tag pull always sets \<^verbatim>\<open>last_tag_pulled\<close> to its tag)
  fails: after a pull of \<^verbatim>\<open>latest\<close> at time 10, a pull of \<^verbatim>\<open>v1.0\<close> at time 5
  that reaches the same manifest row leaves \<^verbatim>\<open>latest\<close> there.
\<close>

theorem older_tag_pull_counterexample:
  "map_option last_tag_pulled
     (manifest_row
        (process_entries example_env empty_world
           [tag_pull 1 ''latest'' (Some ''sha256:abc'') 10,
            tag_pull 1 ''v1.0'' (Some ''sha256:abc'') 5]) 1 ''sha256:abc'')
    = Some (Some ''latest'')
   \<and> map_option last_tag_pulled
     (manifest_row
        (process_entries example_env empty_world
           [tag_pull 1 ''latest'' (Some ''sha256:abc'') 10,
            tag_pull 1 ''v1.0'' (Some ''sha256:abc'') 5]) 1 ''sha256:abc'')
    \<noteq> Some (Some ''v1.0'')"
  by (simp add: eval_defs)

section \<open>Manifest rows of different repositories\<close>

lemma manifest_update_other_repo:
  assumes "repo \<noteq> repo'"
  shows "filter (\<lambda>r. manifest_repository r = repo')
           (manifest_stats (snd (update_manifest_pull_stats e w repo digest t via)))
         = filter (\<lambda>r. manifest_repository r = repo') (manifest_stats w)"
  using assms
  by (auto simp: update_manifest_pull_stats_def manifest_key_def
      intro!: filter_map_other split: option.splits)

lemma manifest_update_other_row:
  assumes "repo \<noteq> repo'"
  shows "manifest_row (snd (update_manifest_pull_stats e w repo digest t via)) repo' digest'
         = manifest_row w repo' digest'"
  using assms
  by (auto simp: update_manifest_pull_stats_def manifest_row_def manifest_key_def
      find_other_append intro!: find_other_map split: option.splits)

lemma tag_update_other_repo:
  assumes "repo \<noteq> repo'"
  shows "filter (\<lambda>r. manifest_repository r = repo')
           (manifest_stats (snd (update_tag_pull_stats e w repo name t d)))
         = filter (\<lambda>r. manifest_repository r = repo') (manifest_stats w)"
  unfolding update_tag_pull_stats_def Let_def
  by (simp add: manifest_update_other_repo [OF assms] log_msg_def
      split: prod.splits option.splits)

lemma tag_update_other_row:
  assumes "repo \<noteq> repo'"
  shows "manifest_row (snd (update_tag_pull_stats e w repo name t d)) repo' digest'
         = manifest_row w repo' digest'"
  unfolding update_tag_pull_stats_def Let_def
  by (simp add: manifest_update_other_row [OF assms] log_msg_def
      split: prod.splits option.splits) (simp add: manifest_row_def)

text \<open>
  C8. The manifest rows are keyed by (repository, digest): an update for repository
  \<open>repo\<close>, and the processing of any event of \<open>repo\<close>, leaves the row of the
  same digest in another repository \<open>repo'\<close>, and every manifest row of \<open>repo'\<close>,
  exactly as it was (count, dates and \<^verbatim>\<open>last_tag_pulled\<close>).
\<close>

theorem manifest_rows_independent:
  assumes "repo \<noteq> repo'" and "repository_id log = Some repo"
  shows "manifest_row (snd (update_manifest_pull_stats e w repo digest t via)) repo' digest
           = manifest_row w repo' digest
    \<and> manifest_row (snd (process_single_log e w log)) repo' digest = manifest_row w repo' digest
    \<and> filter (\<lambda>r. manifest_repository r = repo')
          (manifest_stats (snd (process_single_log e w log)))
        = filter (\<lambda>r. manifest_repository r = repo') (manifest_stats w)"
  using assms
  by (simp add: manifest_update_other_row manifest_update_other_repo tag_update_other_repo
      tag_update_other_row process_single_log_def Let_def)

theorem manifest_rows_independent_witness:
  "(1::nat) \<noteq> 2 \<and> repository_id (digest_pull 1 ''sha256:abc'' 20) = Some 1
   \<and> manifest_row (snd (process_single_log example_env
        (process_entries example_env empty_world
           [tag_pull 2 ''latest'' (Some ''sha256:abc'') 10])
        (digest_pull 1 ''sha256:abc'' 20))) 2 ''sha256:abc''
      = Some \<lparr>manifest_repository = 2, manifest_digest = ''sha256:abc'',
           total_pull_count = 1, last_pull_date = 10, last_tag_pulled = Some ''latest'',
           manifest_created = 1000, manifest_updated = 10\<rparr>"
proof -
  have h1: "(1::nat) \<noteq> 2" by simp
  have h2: "repository_id (digest_pull 1 ''sha256:abc'' 20) = Some 1"
    by (simp add: digest_pull_def)
  have w: "manifest_row (process_entries example_env empty_world
           [tag_pull 2 ''latest'' (Some ''sha256:abc'') 10]) 2 ''sha256:abc''
      = Some \<lparr>manifest_repository = 2, manifest_digest = ''sha256:abc'',
           total_pull_count = 1, last_pull_date = 10, last_tag_pulled = Some ''latest'',
           manifest_created = 1000, manifest_updated = 10\<rparr>"
    by (simp add: eval_defs)
  from manifest_rows_independent [OF h1 h2, of example_env
      "process_entries example_env empty_world [tag_pull 2 ''latest'' (Some ''sha256:abc'') 10]"
      "''sha256:abc''"] h1 h2 w
  show ?thesis by simp
qed

section \<open>Tag pulls\<close>

text \<open>
  C2, as the code has it. A tag pull that carries no digest and whose tag has no
  active binding is not counted at all: \<^verbatim>\<open>_update_tag_pull_stats\<close> returns before
  the upsert of the tag row, so neither table changes. The occurrence is logged as a
  warning and raises nothing, so the batch goes on.
\<close>

theorem unresolved_tag_pull_not_counted:
  assumes "repository_id log = Some repo" and "repo \<noteq> 0"
    and "md_tag (entry_metadata log) = Some name" and "name \<noteq> []"
    and "\<not> truthy_str (md_manifest_digest (entry_metadata log))"
    and "active_binding e repo name = None"
  shows "fst (process_single_log e w log) = None
    \<and> tag_stats (snd (process_single_log e w log)) = tag_stats w
    \<and> manifest_stats (snd (process_single_log e w log)) = manifest_stats w
    \<and> processing_state (snd (process_single_log e w log)) = processing_state w
    \<and> last (logger (snd (process_single_log e w log)))
        = (WARNING, ''Could not find manifest digest for tag %s in repo %d'')"
  using assms
  by (simp add: process_single_log_def update_tag_pull_stats_def
      get_manifest_digest_for_tag_def truthy_id_def truthy_str_def log_msg_def Let_def)

theorem unresolved_tag_pull_not_counted_witness:
  "repository_id (tag_pull 1 ''v1.0'' None 5) = Some 1 \<and> (1::nat) \<noteq> 0
   \<and> md_tag (entry_metadata (tag_pull 1 ''v1.0'' None 5)) = Some ''v1.0'' \<and> ''v1.0'' \<noteq> []
   \<and> \<not> truthy_str (md_manifest_digest (entry_metadata (tag_pull 1 ''v1.0'' None 5)))
   \<and> active_binding example_env 1 ''v1.0'' = None
   \<and> process_single_log example_env empty_world (tag_pull 1 ''v1.0'' None 5)
      = (None, \<lparr>tag_stats = [], manifest_stats = [], processing_state = [],
           logger = [(WARNING, ''Could not find manifest digest for tag %s in repo %d'')]\<rparr>)"
proof -
  have h1: "repository_id (tag_pull 1 ''v1.0'' None 5) = Some 1"
    and h2: "(1::nat) \<noteq> 0"
    and h3: "md_tag (entry_metadata (tag_pull 1 ''v1.0'' None 5)) = Some ''v1.0''"
    and h4: "''v1.0'' \<noteq> []"
    and h5: "\<not> truthy_str (md_manifest_digest (entry_metadata (tag_pull 1 ''v1.0'' None 5)))"
    and h6: "active_binding example_env 1 ''v1.0'' = None"
    by (simp_all add: tag_pull_def truthy_str_def active_binding_def example_env_def)
  have r: "process_single_log example_env empty_world (tag_pull 1 ''v1.0'' None 5)
      = (None, \<lparr>tag_stats = [], manifest_stats = [], processing_state = [],
           logger = [(WARNING, ''Could not find manifest digest for tag %s in repo %d'')]\<rparr>)"
    by (simp add: eval_defs)
  from unresolved_tag_pull_not_counted [OF h1 h2 h3 h4 h5 h6, of empty_world]
    h1 h2 h3 h4 h5 h6 r
  show ?thesis by simp
qed

text \<open>
  The claim as written (the event is still counted on the tag row) fails: after such
  an event on empty tables there is no row for the tag.
\<close>

theorem unresolved_tag_pull_counterexample:
  "tag_row (process_entries example_env empty_world [tag_pull 1 ''v1.0'' None 5]) 1 ''v1.0''
     = None"
  by (simp add: eval_defs)

text \<open>
  C1 at a failing input. Two pulls of the same tag are delivered newest first (times
  5 and 3) by the logs model. The row counts both, and its last pull date is 3, the
  time of the event processed last, where the maximum is 5: the \<^verbatim>\<open>UPDATE\<close> of
  the tag row assigns \<^verbatim>\<open>pull_datetime\<close> without the comparison the manifest row
  has.
\<close>

theorem out_of_order_tag_pulls_last_processed:
  "map_option (\<lambda>r. (tag_pull_count r, last_tag_pull_date r))
     (tag_row
        (sync_pull_stats
           (example_env\<lparr>lookup_logs := \<lambda>_ _ _. Some
              [tag_pull 1 ''v1.0'' (Some ''sha256:abc'') 5,
               tag_pull 1 ''v1.0'' (Some ''sha256:abc'') 3]\<rparr>)
           empty_world) 1 ''v1.0'')
    = Some (2, 3)"
  by (simp add: eval_defs)

section \<open>The event at the watermark\<close>

text \<open>
  C4 at a failing input. One pull at time 900 is in the log table. The first pass
  counts it and stores the watermark 900. The next pass reads from the stored
  watermark with \<^verbatim>\<open>datetime >= start\<close>, gets the same event and counts it again.
\<close>

theorem watermark_event_counted_again:
  "map_option last_processed_datetime
     (checkpoint (sync_pull_stats first_pass_env empty_world)) = Some 900
   \<and> tag_pulls (sync_pull_stats first_pass_env empty_world) 1 ''v1.0'' = 1
   \<and> pass_events (first_pass_env\<lparr>utcnow := 1300\<rparr>)
       (sync_pull_stats first_pass_env empty_world)
     = pass_events first_pass_env empty_world
   \<and> tag_pulls (sync_pull_stats (first_pass_env\<lparr>utcnow := 1300\<rparr>)
        (sync_pull_stats first_pass_env empty_world)) 1 ''v1.0'' = 2
   \<and> manifest_pulls (sync_pull_stats (first_pass_env\<lparr>utcnow := 1300\<rparr>)
        (sync_pull_stats first_pass_env empty_world)) 1 ''sha256:abc'' = 2"
  by (simp add: eval_defs first_pass_env_def tag_pulls_def)

section \<open>The lock\<close>

text \<open>
  C7. When another instance holds the lock, the cycle does nothing but log one line
  at debug level: no row of the tag, manifest or checkpoint table changes, and no
  warning or error is logged.
\<close>

theorem lock_held_skips_cycle:
  assumes "lock_held e"
  shows "sync_pull_stats e w = log_msg DEBUG ''Could not acquire pull stats sync lock'' w
    \<and> tag_stats (sync_pull_stats e w) = tag_stats w
    \<and> manifest_stats (sync_pull_stats e w) = manifest_stats w
    \<and> processing_state (sync_pull_stats e w) = processing_state w
    \<and> logger (sync_pull_stats e w) =
        logger w @ [(DEBUG, ''Could not acquire pull stats sync lock'')]"
  using assms by (simp add: sync_pull_stats_def log_msg_def)

theorem lock_held_skips_cycle_witness:
  "lock_held (example_env\<lparr>lock_held := True,
       log_entries := [db_tag_pull 7 1 ''v1.0'' ''sha256:abc'' 900]\<rparr>)
   \<and> sync_pull_stats (example_env\<lparr>lock_held := True,
       log_entries := [db_tag_pull 7 1 ''v1.0'' ''sha256:abc'' 900]\<rparr>) empty_world
      = \<lparr>tag_stats = [], manifest_stats = [], processing_state = [],
         logger = [(DEBUG, ''Could not acquire pull stats sync lock'')]\<rparr>"
proof -
  have h: "lock_held (example_env\<lparr>lock_held := True,
       log_entries := [db_tag_pull 7 1 ''v1.0'' ''sha256:abc'' 900]\<rparr>)"
    by (simp add: example_env_def)
  from lock_held_skips_cycle [OF h, of empty_world] h show ?thesis
    by (simp add: log_msg_def empty_world_def)
qed

section \<open>The loop of a pass as a run of batches\<close>

lemma track_log_id_keeps: "track_log_id latest log = Inr latest"
  by (simp add: track_log_id_def hasattr_dict_def dict_methods_def)

lemma manifest_update_processing_state:
  "processing_state (snd (update_manifest_pull_stats e w repo digest t via)) = processing_state w"
  by (simp add: update_manifest_pull_stats_def split: option.splits)

lemma tag_update_processing_state:
  "processing_state (snd (update_tag_pull_stats e w repo name t d)) = processing_state w"
  unfolding update_tag_pull_stats_def Let_def
  by (simp add: manifest_update_processing_state log_msg_def split: prod.splits option.splits)

lemma single_log_processing_state:
  "processing_state (snd (process_single_log e w log)) = processing_state w"
  by (simp add: process_single_log_def Let_def manifest_update_processing_state
      tag_update_processing_state)

lemma process_entries_processing_state:
  "processing_state (process_entries e w logs) = processing_state w"
proof (induction logs arbitrary: w)
  case Nil
  show ?case by simp
next
  case (Cons log logs)
  have "processing_state (snd (process_single_log e w log)) = processing_state w"
    by (rule single_log_processing_state)
  then show ?case
    by (cases "process_single_log e w log") (auto simp: Cons.IH log_msg_def split: option.splits)
qed

lemma batch_processing_state:
  "processing_state (snd (process_log_batch e w b)) = processing_state w"
  by (simp add: process_log_batch_def Let_def process_entries_processing_state)

lemma batch_error:
  "fst (process_log_batch e w b) = (if commit_fails e b then Some WriteFailure else None)"
  by (simp add: process_log_batch_def Let_def)

lemma batch_rollback:
  "commit_fails e b \<Longrightarrow> tag_stats (snd (process_log_batch e w b)) = tag_stats w
     \<and> manifest_stats (snd (process_log_batch e w b)) = manifest_stats w"
  by (simp add: process_log_batch_def Let_def)

lemma run_batches_processing_state:
  "processing_state (snd (run_batches e w bs)) = processing_state w"
proof (induction bs arbitrary: w)
  case Nil
  show ?case by simp
next
  case (Cons b bs)
  have "processing_state (snd (process_log_batch e w b)) = processing_state w"
    by (rule batch_processing_state)
  then show ?case
    by (cases "process_log_batch e w b") (auto simp: Cons.IH split: option.splits)
qed

lemma loop_run_batches:
  "(case pull_logs_loop e v logs of
      (Some err, v') \<Rightarrow> (Some err, loop_world v')
    | (None, v') \<Rightarrow>
        (if batch v' \<noteq> [] then process_log_batch e (loop_world v') (batch v')
         else (None, loop_world v')))
   = run_batches e (loop_world v) (split_batches (BATCH_SIZE e) (batch v) logs)"
proof (induction logs arbitrary: v)
  case Nil
  show ?case
    by (cases "process_log_batch e (loop_world v) (batch v)")
       (auto split: option.splits)
next
  case (Cons log logs)
  show ?case
  proof (cases "BATCH_SIZE e \<le> length (batch v @ [log])")
    case False
    then show ?thesis
      by (simp add: Let_def track_log_id_keeps Cons.IH)
  next
    case True
    obtain err w' where b: "process_log_batch e (loop_world v) (batch v @ [log]) = (err, w')"
      by (cases "process_log_batch e (loop_world v) (batch v @ [log])")
    show ?thesis
    proof (cases err)
      case None
      with True b show ?thesis
        by (simp add: Let_def track_log_id_keeps Cons.IH)
    next
      case (Some x)
      with True b show ?thesis
        by (simp add: Let_def track_log_id_keeps)
    qed
  qed
qed

lemma loop_vars_result:
  "pull_logs_loop e v logs = (None, v') \<Longrightarrow>
     latest_datetime v' = foldl max (latest_datetime v) (map entry_datetime logs)
     \<and> latest_log_id v' = latest_log_id v
     \<and> processed_count v' + length (batch v')
         = processed_count v + length (batch v) + length logs"
proof (induction logs arbitrary: v)
  case Nil
  then show ?case by simp
next
  case (Cons log logs)
  then show ?case
    by (auto simp: Let_def track_log_id_keeps split: prod.splits option.splits if_splits)
qed

lemma process_pull_logs_batches:
  "process_pull_logs e w =
    (if pass_events e w = [] then
       (None, log_msg DEBUG ''No pull logs found in time range'' (pass_start e w))
     else case run_batches e (pass_start e w) (pass_batches e w) of
        (Some err, w4) \<Rightarrow> (Some err, w4)
      | (None, w4) \<Rightarrow>
          (None, log_msg INFO ''Processed %d pull log entries''
             (update_processing_state w4
                (foldl max (last_processed_datetime (fst (get_processing_state e w)))
                   (map entry_datetime (pass_events e w)))
                (last_processed_log_id (fst (get_processing_state e w)))
                (length (pass_events e w)))))"
proof -
  obtain st w1 where g: "get_processing_state e w = (st, w1)"
    by (cases "get_processing_state e w")
  obtain logs lines where
    p: "get_pull_logs e (last_processed_datetime st) (utcnow e) = (logs, lines)"
    by (cases "get_pull_logs e (last_processed_datetime st) (utcnow e)")
  define w3 where
    "w3 = w1\<lparr>logger := logger w1 @ (INFO, ''Processing pull logs from %s to %s'') # lines\<rparr>"
  define v0 where
    "v0 = \<lparr>loop_world = w3, batch = [], processed_count = 0,
            latest_datetime = last_processed_datetime st,
            latest_log_id = last_processed_log_id st\<rparr>"
  have ps: "pass_start e w = w3"
    by (simp add: pass_start_def g p w3_def)
  have pe: "pass_events e w = logs"
    by (simp add: pass_events_def g p)
  have pb: "pass_batches e w = split_batches (BATCH_SIZE e) [] logs"
    by (simp add: pass_batches_def pe)
  have unfold: "process_pull_logs e w =
    (if logs = [] then (None, log_msg DEBUG ''No pull logs found in time range'' w3)
     else case pull_logs_loop e v0 logs of
        (Some err, v) \<Rightarrow> (Some err, loop_world v)
      | (None, v) \<Rightarrow>
          (case (if batch v \<noteq> [] then process_log_batch e (loop_world v) (batch v)
                 else (None, loop_world v)) of
             (Some err, w4) \<Rightarrow> (Some err, w4)
           | (None, w4) \<Rightarrow>
               (None, log_msg INFO ''Processed %d pull log entries''
                  (update_processing_state w4 (latest_datetime v) (latest_log_id v)
                     (processed_count v + (if batch v \<noteq> [] then length (batch v) else 0))))))"
    unfolding process_pull_logs_def Let_def
    by (simp add: g p w3_def v0_def log_msg_def)
  obtain err v' where l: "pull_logs_loop e v0 logs = (err, v')"
    by (cases "pull_logs_loop e v0 logs")
  have rb: "run_batches e w3 (split_batches (BATCH_SIZE e) [] logs) =
      (case err of
         Some x \<Rightarrow> (Some x, loop_world v')
       | None \<Rightarrow> (if batch v' \<noteq> [] then process_log_batch e (loop_world v') (batch v')
                  else (None, loop_world v')))"
    using loop_run_batches [of e v0 logs] l by (simp add: v0_def split: option.splits)
  show ?thesis
  proof (cases err)
    case (Some x)
    then show ?thesis
      using rb l by (simp add: unfold ps pe pb g)
  next
    case None
    have vars: "latest_datetime v' = foldl max (last_processed_datetime st) (map entry_datetime logs)"
      "latest_log_id v' = last_processed_log_id st"
      "processed_count v' + length (batch v') = length logs"
      using loop_vars_result [of e v0 logs v'] l None by (simp_all add: v0_def)
    have cnt: "processed_count v' + (if batch v' \<noteq> [] then length (batch v') else 0) = length logs"
      using vars(3) by (cases "batch v' = []") auto
    show ?thesis
      using rb l None vars
      by (cases "batch v' = []")
         (auto simp: unfold ps pe pb g split: prod.splits option.splits)
  qed
qed

lemma checkpoint_get_state:
  "checkpoint (snd (get_processing_state e w)) = Some (fst (get_processing_state e w))"
  by (cases "checkpoint w")
     (simp_all add: get_processing_state_def Let_def checkpoint_def find_append_new)

lemma get_state_existing:
  "checkpoint w = Some st \<Longrightarrow> get_processing_state e w = (st, w)"
  by (simp add: get_processing_state_def)

lemma get_state_stats:
  "tag_stats (snd (get_processing_state e w)) = tag_stats w
   \<and> manifest_stats (snd (get_processing_state e w)) = manifest_stats w"
  by (cases "checkpoint w") (simp_all add: get_processing_state_def Let_def)

lemma checkpoint_update:
  "checkpoint (update_processing_state w a b c) =
     map_option (\<lambda>s. s\<lparr>last_processed_datetime := a, last_processed_log_id := b,
                        logs_processed_count := logs_processed_count s + c\<rparr>) (checkpoint w)"
  unfolding checkpoint_def update_processing_state_def
  by (simp add: find_map_update)

lemma checkpoint_cong:
  "processing_state w = processing_state w' \<Longrightarrow> checkpoint w = checkpoint w'"
  by (simp add: checkpoint_def)

lemma pass_start_tables:
  "processing_state (pass_start e w) = processing_state (snd (get_processing_state e w))
   \<and> tag_stats (pass_start e w) = tag_stats w
   \<and> manifest_stats (pass_start e w) = manifest_stats w"
  by (simp add: pass_start_def Let_def get_state_stats)

lemma foldl_max_ge: "(a::int) \<le> foldl max a xs"
proof (induction xs arbitrary: a)
  case Nil
  show ?case by simp
next
  case (Cons x xs)
  have "a \<le> max a x" by simp
  also have "max a x \<le> foldl max (max a x) xs" by (rule Cons.IH)
  finally show ?case by simp
qed

lemma run_batches_failure:
  "run_batches e w bs = (Some err, w') \<Longrightarrow>
     err = WriteFailure \<and>
     (\<exists>committed failed rest w_mid. bs = committed @ failed # rest \<and> commit_fails e failed
        \<and> run_batches e w committed = (None, w_mid)
        \<and> tag_stats w' = tag_stats w_mid \<and> manifest_stats w' = manifest_stats w_mid)"
proof (induction bs arbitrary: w)
  case Nil
  then show ?case by simp
next
  case (Cons b bs)
  obtain r w1 where b: "process_log_batch e w b = (r, w1)"
    by (cases "process_log_batch e w b")
  show ?case
  proof (cases r)
    case None
    with Cons.prems b have "run_batches e w1 bs = (Some err, w')" by simp
    from Cons.IH [OF this] obtain committed failed rest w_mid where
      d: "err = WriteFailure" "bs = committed @ failed # rest" "commit_fails e failed"
         "run_batches e w1 committed = (None, w_mid)"
         "tag_stats w' = tag_stats w_mid" "manifest_stats w' = manifest_stats w_mid"
      by blast
    have "b # bs = (b # committed) @ failed # rest" using d(2) by simp
    moreover have "run_batches e w (b # committed) = (None, w_mid)"
      using b None d(4) by simp
    ultimately show ?thesis using d by blast
  next
    case (Some x)
    with Cons.prems b have eq: "x = err" "w1 = w'" by simp_all
    have cf: "commit_fails e b" and "x = WriteFailure"
      using batch_error [of e w b] b Some by (auto split: if_splits)
    moreover have "tag_stats w' = tag_stats w \<and> manifest_stats w' = manifest_stats w"
      using batch_rollback [OF cf, of w] b eq by simp
    moreover have "b # bs = [] @ b # bs" "run_batches e w [] = (None, w)" by simp_all
    ultimately show ?thesis using eq by blast
  qed
qed


lemma pass_checkpoint:
  "\<exists>st1. checkpoint (snd (process_pull_logs e w)) = Some st1
     \<and> last_processed_datetime (fst (get_processing_state e w)) \<le> last_processed_datetime st1
     \<and> last_processed_log_id st1 = last_processed_log_id (fst (get_processing_state e w))
     \<and> (st1 \<noteq> fst (get_processing_state e w) \<longrightarrow>
          (\<exists>w4. run_batches e (pass_start e w) (pass_batches e w) = (None, w4)
             \<and> tag_stats (snd (process_pull_logs e w)) = tag_stats w4
             \<and> manifest_stats (snd (process_pull_logs e w)) = manifest_stats w4))"
proof -
  let ?st0 = "fst (get_processing_state e w)"
  have start: "checkpoint (pass_start e w) = Some ?st0"
    using checkpoint_cong [of "pass_start e w" "snd (get_processing_state e w)"]
    by (simp add: pass_start_tables checkpoint_get_state)
  show ?thesis
  proof (cases "pass_events e w = []")
    case True
    then have "snd (process_pull_logs e w)
        = log_msg DEBUG ''No pull logs found in time range'' (pass_start e w)"
      by (simp add: process_pull_logs_batches)
    then have "checkpoint (snd (process_pull_logs e w)) = Some ?st0"
      using start by (simp add: checkpoint_def log_msg_def)
    then show ?thesis by simp
  next
    case False
    obtain r w4 where rb: "run_batches e (pass_start e w) (pass_batches e w) = (r, w4)"
      by (cases "run_batches e (pass_start e w) (pass_batches e w)")
    have w4: "checkpoint w4 = Some ?st0"
      using run_batches_processing_state [of e "pass_start e w" "pass_batches e w"] rb start
        checkpoint_cong [of w4 "pass_start e w"] by simp
    show ?thesis
    proof (cases r)
      case (Some x)
      with False rb have "snd (process_pull_logs e w) = w4"
        by (simp add: process_pull_logs_batches)
      with w4 show ?thesis by simp
    next
      case None
      let ?latest = "foldl max (last_processed_datetime ?st0)
                       (map entry_datetime (pass_events e w))"
      let ?w5 = "update_processing_state w4 ?latest (last_processed_log_id ?st0)
                   (length (pass_events e w))"
      from None False rb have res: "snd (process_pull_logs e w)
          = log_msg INFO ''Processed %d pull log entries'' ?w5"
        by (simp add: process_pull_logs_batches)
      have "checkpoint (snd (process_pull_logs e w)) = checkpoint ?w5"
        by (simp add: res checkpoint_def log_msg_def)
      then have c: "checkpoint (snd (process_pull_logs e w))
          = Some (?st0\<lparr>last_processed_datetime := ?latest,
                 last_processed_log_id := last_processed_log_id ?st0,
                 logs_processed_count := logs_processed_count ?st0
                    + length (pass_events e w)\<rparr>)"
        by (simp add: checkpoint_update w4)
      have t: "tag_stats (snd (process_pull_logs e w)) = tag_stats w4
          \<and> manifest_stats (snd (process_pull_logs e w)) = manifest_stats w4"
        by (simp add: res log_msg_def update_processing_state_def)
      have "last_processed_datetime ?st0 \<le> ?latest" by (rule foldl_max_ge)
      with c t rb None show ?thesis by simp
    qed
  qed
qed

section \<open>A pass aborted by a write error\<close>

text \<open>
  C3, as the code has it. A write error raised while one entry is processed never
  aborts a batch (it is caught inside the loop of the batch): a batch fails exactly
  when its transaction fails to commit. A pass that such a failure aborts logs the
  error and leaves the checkpoint table as the pass found it (with the worker's row
  created when it was missing); the writes of the failed batch are rolled back as a
  unit, and the tag and manifest tables are as the batches of the same pass that
  committed before it left them, which is the state before the pass only when the
  failed batch is the first.
\<close>

theorem failed_commit_aborts_pass:
  assumes "process_pull_logs e w = (Some err, w')" and "\<not> lock_held e"
  shows "err = WriteFailure
    \<and> fst (process_log_batch e w0 b0) = (if commit_fails e b0 then Some WriteFailure else None)
    \<and> sync_pull_stats e w = log_msg ERROR ''Error processing pull stats: %s'' w'
    \<and> processing_state w' = processing_state (snd (get_processing_state e w))
    \<and> (\<exists>committed failed rest w_mid.
          pass_batches e w = committed @ failed # rest \<and> commit_fails e failed
          \<and> run_batches e (pass_start e w) committed = (None, w_mid)
          \<and> tag_stats w' = tag_stats w_mid \<and> manifest_stats w' = manifest_stats w_mid)"
proof -
  from assms(1) have ne: "pass_events e w \<noteq> []"
    by (auto simp: process_pull_logs_batches split: if_splits)
  with assms(1) have rb: "run_batches e (pass_start e w) (pass_batches e w) = (Some err, w')"
    by (auto simp: process_pull_logs_batches split: prod.splits option.splits)
  have "processing_state w' = processing_state (pass_start e w)"
    using run_batches_processing_state [of e "pass_start e w" "pass_batches e w"] rb by simp
  then have ps: "processing_state w' = processing_state (snd (get_processing_state e w))"
    by (simp add: pass_start_tables)
  have sy: "sync_pull_stats e w = log_msg ERROR ''Error processing pull stats: %s'' w'"
    using assms by (simp add: sync_pull_stats_def)
  from run_batches_failure [OF rb] ps sy batch_error [of e w0 b0] show ?thesis by blast
qed

theorem failed_commit_aborts_pass_witness:
  "process_pull_logs second_commit_fails_env checkpointed_world
     = (Some WriteFailure, snd (process_pull_logs second_commit_fails_env checkpointed_world))
   \<and> \<not> lock_held second_commit_fails_env
   \<and> fst (process_log_batch second_commit_fails_env checkpointed_world
          [tag_pull 1 ''v1.0'' (Some ''sha256:abc'') 5]) = None
   \<and> sync_pull_stats second_commit_fails_env checkpointed_world
     = log_msg ERROR ''Error processing pull stats: %s''
         (snd (process_pull_logs second_commit_fails_env checkpointed_world))
   \<and> processing_state (snd (process_pull_logs second_commit_fails_env checkpointed_world))
     = processing_state checkpointed_world
   \<and> (\<exists>committed failed rest w_mid.
          pass_batches second_commit_fails_env checkpointed_world = committed @ failed # rest
          \<and> commit_fails second_commit_fails_env failed
          \<and> run_batches second_commit_fails_env
                (pass_start second_commit_fails_env checkpointed_world) committed = (None, w_mid)
          \<and> tag_stats (snd (process_pull_logs second_commit_fails_env checkpointed_world))
              = tag_stats w_mid
          \<and> manifest_stats (snd (process_pull_logs second_commit_fails_env checkpointed_world))
              = manifest_stats w_mid)"
proof -
  have "fst (process_pull_logs second_commit_fails_env checkpointed_world) = Some WriteFailure"
    by (simp add: eval_defs second_commit_fails_env_def checkpointed_world_def)
  then have h1: "process_pull_logs second_commit_fails_env checkpointed_world
     = (Some WriteFailure, snd (process_pull_logs second_commit_fails_env checkpointed_world))"
    by (simp add: prod_eq_iff)
  have h2: "\<not> lock_held second_commit_fails_env"
    by (simp add: second_commit_fails_env_def example_env_def)
  have g: "snd (get_processing_state second_commit_fails_env checkpointed_world)
      = checkpointed_world"
    by (simp add: get_processing_state_def checkpoint_def checkpointed_world_def)
  have c: "\<not> commit_fails second_commit_fails_env [tag_pull 1 ''v1.0'' (Some ''sha256:abc'') 5]"
    by (simp add: second_commit_fails_env_def example_env_def tag_pull_def)
  from failed_commit_aborts_pass [OF h1 h2, of checkpointed_world
      "[tag_pull 1 ''v1.0'' (Some ''sha256:abc'') 5]"] h1 h2 g c
  show ?thesis by simp
qed

text \<open>
  The claim as written (the tables are left in their state before the pass) fails
  on a pass of two batches whose second commit fails: the pass ends with the write
  error and an unchanged checkpoint, and the first batch's row stays.
\<close>

theorem failed_commit_counterexample:
  "fst (process_pull_logs second_commit_fails_env checkpointed_world) = Some WriteFailure
   \<and> processing_state (snd (process_pull_logs second_commit_fails_env checkpointed_world))
       = processing_state checkpointed_world
   \<and> tag_stats (snd (process_pull_logs second_commit_fails_env checkpointed_world))
       \<noteq> tag_stats checkpointed_world"
  by (simp add: eval_defs second_commit_fails_env_def checkpointed_world_def)

section \<open>The watermark over a sequence of passes\<close>



section \<open>A pass that reads no event\<close>

text \<open>
  C9. When the window from the watermark to now holds no event, the pass returns
  before the checkpoint update: the checkpoint table is as the pass read it (the row
  is only created when it was missing, with the look-back watermark), the tag and
  manifest tables are unchanged, and a later pass reads the same row, so its window
  starts at the same watermark.
\<close>

theorem empty_window_keeps_checkpoint:
  assumes "pass_events e w = []"
  shows "fst (process_pull_logs e w) = None
    \<and> processing_state (snd (process_pull_logs e w))
        = processing_state (snd (get_processing_state e w))
    \<and> tag_stats (snd (process_pull_logs e w)) = tag_stats w
    \<and> manifest_stats (snd (process_pull_logs e w)) = manifest_stats w
    \<and> fst (get_processing_state e' (snd (process_pull_logs e w)))
        = fst (get_processing_state e w)
    \<and> (checkpoint w \<noteq> None \<longrightarrow>
          processing_state (sync_pull_stats e w) = processing_state w)"
proof -
  have res: "process_pull_logs e w
      = (None, log_msg DEBUG ''No pull logs found in time range'' (pass_start e w))"
    using assms by (simp add: process_pull_logs_batches)
  have ps: "processing_state (snd (process_pull_logs e w))
      = processing_state (snd (get_processing_state e w))"
    by (simp add: res log_msg_def pass_start_tables)
  have "checkpoint (snd (process_pull_logs e w)) = Some (fst (get_processing_state e w))"
    using checkpoint_cong [OF ps] by (simp add: checkpoint_get_state)
  then have nxt: "fst (get_processing_state e' (snd (process_pull_logs e w)))
      = fst (get_processing_state e w)"
    by (simp add: get_state_existing)
  have ex: "checkpoint w \<noteq> None \<longrightarrow> processing_state (sync_pull_stats e w) = processing_state w"
  proof
    assume "checkpoint w \<noteq> None"
    then obtain st where "checkpoint w = Some st" by blast
    then have "snd (get_processing_state e w) = w" by (simp add: get_state_existing)
    with ps show "processing_state (sync_pull_stats e w) = processing_state w"
      by (simp add: sync_pull_stats_def res log_msg_def)
  qed
  show ?thesis
    using ps nxt ex by (simp add: res log_msg_def pass_start_tables)
qed

theorem empty_window_keeps_checkpoint_witness:
  "pass_events example_env checkpointed_world = []
   \<and> fst (process_pull_logs example_env checkpointed_world) = None
   \<and> processing_state (snd (process_pull_logs example_env checkpointed_world))
       = processing_state checkpointed_world
   \<and> tag_stats (snd (process_pull_logs example_env checkpointed_world)) = []
   \<and> manifest_stats (snd (process_pull_logs example_env checkpointed_world)) = []
   \<and> last_processed_datetime (fst (get_processing_state second_pass_env
         (snd (process_pull_logs example_env checkpointed_world)))) = 0
   \<and> checkpoint checkpointed_world \<noteq> None
   \<and> processing_state (sync_pull_stats example_env checkpointed_world)
       = processing_state checkpointed_world"
proof -
  have h: "pass_events example_env checkpointed_world = []"
    by (simp add: eval_defs checkpointed_world_def)
  have c: "checkpoint checkpointed_world \<noteq> None"
    by (simp add: checkpoint_def checkpointed_world_def)
  have g: "get_processing_state example_env checkpointed_world
      = (\<lparr>worker_id = WORKER_ID, last_processed_datetime = 0,
           last_processed_log_id = None, logs_processed_count = 0\<rparr>, checkpointed_world)"
    by (simp add: get_processing_state_def checkpoint_def checkpointed_world_def)
  have t: "tag_stats checkpointed_world = [] \<and> manifest_stats checkpointed_world = []"
    by (simp add: checkpointed_world_def)
  from empty_window_keeps_checkpoint [OF h, of second_pass_env] h c g t
  show ?thesis by simp
qed

section \<open>The event ordinal of the checkpoint\<close>

lemma sync_log_id: "checkpoint_log_id (sync_pull_stats e w) = checkpoint_log_id w"
proof (cases "lock_held e")
  case True
  then show ?thesis
    by (simp add: sync_pull_stats_def log_msg_def checkpoint_log_id_def checkpoint_def)
next
  case False
  obtain r w' where p: "process_pull_logs e w = (r, w')"
    by (cases "process_pull_logs e w")
  have c: "checkpoint (sync_pull_stats e w) = checkpoint w'"
    using False p by (cases r) (simp_all add: sync_pull_stats_def log_msg_def checkpoint_def)
  from pass_checkpoint [of e w] p obtain st1 where
    s: "checkpoint w' = Some st1"
       "last_processed_log_id st1 = last_processed_log_id (fst (get_processing_state e w))"
    by auto
  have "last_processed_log_id (fst (get_processing_state e w)) = checkpoint_log_id w"
    by (cases "checkpoint w") (simp_all add: get_processing_state_def checkpoint_log_id_def Let_def)
  with c s show ?thesis by (simp add: checkpoint_log_id_def)
qed

text \<open>
  C10. The test \<^verbatim>\<open>hasattr(log_entry, 'id')\<close> is false for every dictionary,
  also for one with an \<^verbatim>\<open>id\<close> key, so the loop keeps \<^verbatim>\<open>latest_log_id\<close> as
  it read it from the checkpoint; over any sequence of passes the stored
  \<^verbatim>\<open>last_processed_log_id\<close> keeps its first value (\<open>None\<close> when the row is
  created by the first run).
\<close>

theorem log_id_never_advanced:
  "track_log_id latest log = Inr latest
   \<and> checkpoint_log_id (fold sync_pull_stats es w) = checkpoint_log_id w"
proof -
  have "checkpoint_log_id (fold sync_pull_stats es w) = checkpoint_log_id w"
    by (induction es arbitrary: w) (simp_all add: sync_log_id)
  then show ?thesis by (simp add: track_log_id_keeps)
qed

theorem log_id_never_advanced_witness:
  "track_log_id None
     \<lparr>entry_id = Some 7, entry_datetime = 900, repository_id = Some 1, kind = ''pull_repo'',
      entry_metadata = \<lparr>md_tag = Some ''v1.0'', md_manifest_digest = Some ''sha256:abc''\<rparr>\<rparr>
     = Inr None
   \<and> checkpoint_log_id (fold sync_pull_stats [first_pass_env, second_pass_env] empty_world)
     = None
   \<and> map_option logs_processed_count
       (checkpoint (fold sync_pull_stats [first_pass_env, second_pass_env] empty_world))
     = Some 3"
proof -
  have c: "checkpoint_log_id empty_world = None"
    by (simp add: checkpoint_log_id_def checkpoint_def empty_world_def)
  have n: "map_option logs_processed_count
       (checkpoint (fold sync_pull_stats [first_pass_env, second_pass_env] empty_world))
     = Some 3"
    by (simp add: eval_defs first_pass_env_def second_pass_env_def)
  from log_id_never_advanced [of None _ "[first_pass_env, second_pass_env]" empty_world] c n
  show ?thesis by simp
qed

section \<open>Counting the pulls of a tag\<close>

text \<open>
  A tag pull whose digest is carried raises the pull count of the tag row by one
  when the write on the tag row succeeds, so a batch of such pulls of one tag raises
  it by their number, whatever the order of their times.
\<close>

lemma tag_key_update [simp]:
  "tag_key repo name (r\<lparr>tag_pull_count := a, last_tag_pull_date := b,
      current_manifest_digest := c, tag_updated := d\<rparr>) = tag_key repo name r"
  by (simp add: tag_key_def)

lemma tag_key_new [simp]:
  "tag_key repo name \<lparr>tag_repository = repo', tag_name = name', tag_pull_count = a,
      last_tag_pull_date = b, current_manifest_digest = c, tag_created = d,
      tag_updated = f\<rparr> = (repo' = repo \<and> name' = name)"
  by (simp add: tag_key_def)

lemma manifest_update_tag_stats:
  "tag_stats (snd (update_manifest_pull_stats e w repo digest t via)) = tag_stats w"
  by (simp add: update_manifest_pull_stats_def split: option.splits)

lemma resolved_tag_pull_counts_one:
  assumes "repository_id log = Some repo" and "repo \<noteq> 0"
    and "md_tag (entry_metadata log) = Some name" and "name \<noteq> []"
    and "truthy_str (md_manifest_digest (entry_metadata log))"
    and "\<not> tag_write_fails e repo name"
  shows "tag_pulls (snd (process_single_log e w log)) repo name = tag_pulls w repo name + 1"
proof (cases "find (tag_key repo name) (tag_stats w)")
  case None
  then show ?thesis using assms
    by (simp add: process_single_log_def update_tag_pull_stats_def truthy_id_def
        truthy_str_def Let_def manifest_update_tag_stats tag_pulls_def tag_row_def
        find_append_new)
next
  case (Some found)
  then show ?thesis using assms
    by (simp add: process_single_log_def update_tag_pull_stats_def truthy_id_def
        truthy_str_def Let_def manifest_update_tag_stats tag_pulls_def tag_row_def
        find_map_update)
qed

lemma log_msg_tag_pulls: "tag_pulls (log_msg l m w) repo name = tag_pulls w repo name"
  by (simp add: tag_pulls_def tag_row_def log_msg_def)

lemma resolved_tag_pulls_count:
  assumes "\<forall>log\<in>set logs. repository_id log = Some repo
             \<and> md_tag (entry_metadata log) = Some name
             \<and> truthy_str (md_manifest_digest (entry_metadata log))"
    and "repo \<noteq> 0" and "name \<noteq> []" and "\<not> tag_write_fails e repo name"
  shows "tag_pulls (process_entries e w logs) repo name = tag_pulls w repo name + length logs"
  using assms(1)
proof (induction logs arbitrary: w)
  case Nil
  show ?case by simp
next
  case (Cons log logs)
  have one: "tag_pulls (snd (process_single_log e w log)) repo name = tag_pulls w repo name + 1"
    using Cons.prems assms(2-4) by (intro resolved_tag_pull_counts_one) auto
  have rest: "\<forall>log\<in>set logs. repository_id log = Some repo
             \<and> md_tag (entry_metadata log) = Some name
             \<and> truthy_str (md_manifest_digest (entry_metadata log))"
    using Cons.prems by simp
  obtain r w1 where p: "process_single_log e w log = (r, w1)"
    by (cases "process_single_log e w log")
  show ?case
    using one p Cons.IH [OF rest]
    by (cases r) (simp_all add: log_msg_tag_pulls)
qed

section \<open>The writes a pass has applied when it writes the checkpoint\<close>






lemma log_msg_manifest_pulls:
  "manifest_pulls (log_msg l m w) repo digest = manifest_pulls w repo digest"
  by (simp add: manifest_pulls_def manifest_row_def log_msg_def)








end
